theory Spec2Isabelle
  imports Main "HOL-Library.AList" "HOL-Library.Multiset"
begin

section \<open>Session and transport layer of the DataForSEO MCP server\<close>

text \<open>
  The development follows \<^verbatim>\<open>src/index-http.ts\<close>, which holds two server variants: the
  stateless one (a fresh server and transport per request) and the session-tracking one
  (Streamable HTTP on \<^verbatim>\<open>/mcp\<close>, deprecated HTTP+SSE on \<^verbatim>\<open>/sse\<close> and \<^verbatim>\<open>/messages\<close>, a global
  \<^verbatim>\<open>transports\<close> object, a periodic sweep and a SIGINT handler).

  Strings are byte strings (UTF-8); timestamps are the integral millisecond values of
  \<^verbatim>\<open>Date.now()\<close>. The SDK transports are outside the repository: a transport handle is
  represented by its class and its session id, and its \<^verbatim>\<open>close()\<close> by its outcome (it
  returns, it throws, or the promise it returns is rejected) together with a log of the
  invocations; what a \<^verbatim>\<open>close()\<close> does inside the SDK, such as calling \<^verbatim>\<open>onclose\<close>, is
  not part of the model.
\<close>

subsection \<open>Configuration constants\<close>

definition CONNECTION_TIMEOUT :: int where
  "CONNECTION_TIMEOUT = 30000"

definition CLEANUP_INTERVAL :: int where
  "CLEANUP_INTERVAL = 60000"

subsection \<open>Transport handles and the session store\<close>

datatype transport_class = StreamableHTTPServerTransport | SSEServerTransport

record transport_handle =
  cls :: transport_class
  sessionId :: "string option"

record TransportWithTimestamp =
  transport :: transport_handle
  lastActivity :: int

text \<open>
  \<^verbatim>\<open>const transports: Record<string, TransportWithTimestamp> = {}\<close>: own string keys of
  a JavaScript object are enumerated in insertion order (session ids are UUIDs, never
  integer-like), an assignment to an existing key keeps its position, a new key goes to the
  end, which is what \<^const>\<open>AList.update\<close> does; \<^verbatim>\<open>delete\<close> is \<^const>\<open>AList.delete\<close>.
\<close>

type_synonym store = "(string \<times> TransportWithTimestamp) list"

text \<open>
  Besides the store, the state keeps three logs: the invocations of \<^verbatim>\<open>close()\<close>, the
  session ids of the \<^verbatim>\<open>console.error\<close> lines of the \<^verbatim>\<open>catch\<close> blocks around them, and the
  handles whose rejected promise nothing handled.
\<close>

record world =
  transports :: store
  closeCalls :: "transport_handle list"
  errorLog :: "string list"
  unhandledRejections :: "transport_handle list"

text \<open>
  What a call of \<^verbatim>\<open>transport.close()\<close> does: it returns (a value, or a promise that is
  fulfilled), or it throws in the call itself, or it returns a promise that is rejected.
\<close>

datatype close_outcome = Returns | Throws | Rejects

text \<open>
  \<^verbatim>\<open>transport.close()\<close>: the invocation is recorded; \<open>outcome t\<close> says how closing handle
  \<open>t\<close> ends.
\<close>

definition close :: "(transport_handle \<Rightarrow> close_outcome) \<Rightarrow> transport_handle \<Rightarrow> world \<Rightarrow> close_outcome \<times> world" where
  "close outcome t w = (outcome t, w\<lparr>closeCalls := closeCalls w @ [t]\<rparr>)"

text \<open>
  The idiom \<^verbatim>\<open>try { transport.close(); } catch (error) { console.error(`Error closing
  transport for session ${sid}:`, error); }\<close> of the sweep and of both close callbacks.
  The call is not awaited: the \<^verbatim>\<open>catch\<close> sees an exception of the call, not a rejected
  promise, which is left unhandled.
\<close>

definition try_close :: "(transport_handle \<Rightarrow> close_outcome) \<Rightarrow> string \<Rightarrow> transport_handle \<Rightarrow> world \<Rightarrow> world" where
  "try_close outcome sid t w =
     (case close outcome t w of
        (Returns, w') \<Rightarrow> w'
      | (Throws, w') \<Rightarrow> w'\<lparr>errorLog := errorLog w' @ [sid]\<rparr>
      | (Rejects, w') \<Rightarrow> w'\<lparr>unhandledRejections := unhandledRejections w' @ [t]\<rparr>)"

subsection \<open>The stale-connection sweep\<close>

text \<open>
  The callback of \<^verbatim>\<open>Object.entries(transports).forEach\<close>: the entry is the one of the
  snapshot, the deletion acts on the live object.
\<close>

definition sweep_entry :: "(transport_handle \<Rightarrow> close_outcome) \<Rightarrow> int \<Rightarrow> string \<times> TransportWithTimestamp \<Rightarrow> world \<Rightarrow> world" where
  "sweep_entry outcome now ent w =
     (case ent of (sid, e) \<Rightarrow>
        if now - lastActivity e > CONNECTION_TIMEOUT
        then (let w' = try_close outcome sid (transport e) w
              in w'\<lparr>transports := AList.delete sid (transports w')\<rparr>)
        else w)"

definition cleanupStaleConnections :: "(transport_handle \<Rightarrow> close_outcome) \<Rightarrow> int \<Rightarrow> world \<Rightarrow> world" where
  "cleanupStaleConnections outcome now w = fold (sweep_entry outcome now) (transports w) w"

subsection \<open>Close callbacks, registration and shutdown\<close>

text \<open>
  JavaScript truthiness of an optional string, and the coercion of an optional string to
  a property key (\<^verbatim>\<open>obj[undefined]\<close> is \<^verbatim>\<open>obj["undefined"]\<close>).
\<close>

definition falsy :: "string option \<Rightarrow> bool" where
  "falsy v = (case v of None \<Rightarrow> True | Some s \<Rightarrow> s = [])"

definition prop_key :: "string option \<Rightarrow> string" where
  "prop_key v = (case v of None \<Rightarrow> ''undefined'' | Some s \<Rightarrow> s)"

text \<open>
  A read \<^verbatim>\<open>transports[k]\<close> finds an own entry, or a member inherited from
  \<^verbatim>\<open>Object.prototype\<close> (truthy, and no instance of either transport class), or nothing.
  Keys under which entries are stored come from \<^verbatim>\<open>randomUUID()\<close>.
\<close>

definition Object_prototype_keys :: "string list" where
  "Object_prototype_keys =
     [''constructor'', ''__proto__'', ''hasOwnProperty'', ''isPrototypeOf'',
      ''propertyIsEnumerable'', ''toLocaleString'', ''toString'', ''valueOf'',
      ''__defineGetter__'', ''__defineSetter__'', ''__lookupGetter__'', ''__lookupSetter__'']"

datatype lookup = Undefined | Inherited | Own TransportWithTimestamp

definition get_transport :: "store \<Rightarrow> string \<Rightarrow> lookup" where
  "get_transport s k =
     (case map_of s k of
        Some e \<Rightarrow> Own e
      | None \<Rightarrow> if k \<in> set Object_prototype_keys then Inherited else Undefined)"

text \<open>
  \<^verbatim>\<open>onsessioninitialized\<close> of the Streamable transport, called by the transport \<open>t\<close>
  with its new session id: \<^verbatim>\<open>transports[sessionId] = { transport, lastActivity: Date.now() }\<close>.
\<close>

definition onsessioninitialized :: "transport_handle \<Rightarrow> int \<Rightarrow> string \<Rightarrow> world \<Rightarrow> world" where
  "onsessioninitialized t now sid w =
     w\<lparr>transports := AList.update sid \<lparr>transport = t, lastActivity = now\<rparr> (transports w)\<rparr>"

text \<open>The \<^verbatim>\<open>cleanup\<close> closure of the \<^verbatim>\<open>/mcp\<close> creation branch, over its transport \<open>t\<close>.\<close>

definition cleanup_streamable :: "(transport_handle \<Rightarrow> close_outcome) \<Rightarrow> transport_handle \<Rightarrow> world \<Rightarrow> world" where
  "cleanup_streamable outcome t w =
     (let sid = sessionId t in
      if \<not> falsy sid \<and> get_transport (transports w) (prop_key sid) \<noteq> Undefined
      then (let w' = try_close outcome (prop_key sid) t w
            in w'\<lparr>transports := AList.delete (prop_key sid) (transports w')\<rparr>)
      else w)"

text \<open>The \<^verbatim>\<open>cleanup\<close> closure of \<^verbatim>\<open>/sse\<close>, over its transport \<open>t\<close>: no guard.\<close>

definition cleanup_sse :: "(transport_handle \<Rightarrow> close_outcome) \<Rightarrow> transport_handle \<Rightarrow> world \<Rightarrow> world" where
  "cleanup_sse outcome t w =
     (let w' = try_close outcome (prop_key (sessionId t)) t w
      in w'\<lparr>transports := AList.delete (prop_key (sessionId t)) (transports w')\<rparr>)"

text \<open>
  The loop of the SIGINT handler, \<^verbatim>\<open>for (const sessionId in transports)\<close>, over the keys
  present when it starts (a key deleted before its turn is not visited). The deletion
  stands inside the \<^verbatim>\<open>try\<close> block, after the \<^verbatim>\<open>await\<close> of \<^verbatim>\<open>close()\<close>, so the \<^verbatim>\<open>catch\<close>
  sees an exception of the call and a rejected promise alike. Callbacks that other events
  may run at the \<^verbatim>\<open>await\<close> are not interleaved here.
\<close>

fun close_all :: "(transport_handle \<Rightarrow> close_outcome) \<Rightarrow> string list \<Rightarrow> world \<Rightarrow> world" where
  "close_all outcome [] w = w"
| "close_all outcome (sid # rest) w =
     (case map_of (transports w) sid of
        None \<Rightarrow> close_all outcome rest w
      | Some e \<Rightarrow>
          (case close outcome (transport e) w of
             (Returns, w') \<Rightarrow>
               close_all outcome rest (w'\<lparr>transports := AList.delete sid (transports w')\<rparr>)
           | (Throws, w') \<Rightarrow> close_all outcome rest (w'\<lparr>errorLog := errorLog w' @ [sid]\<rparr>)
           | (Rejects, w') \<Rightarrow> close_all outcome rest (w'\<lparr>errorLog := errorLog w' @ [sid]\<rparr>)))"

definition sigint :: "(transport_handle \<Rightarrow> close_outcome) \<Rightarrow> world \<Rightarrow> world" where
  "sigint outcome w = close_all outcome (map fst (transports w)) w"

subsection \<open>Requests, responses and the auth middleware\<close>

record request =
  req_method :: string
  authorization :: "string option"
  mcp_session_id :: "string option"
  query_sessionId :: "string option"
  isInitializeRequest :: bool
  body_tool :: bool

record response =
  status :: int
  code :: "int option"
  message :: string

text \<open>
  \<^verbatim>\<open>res.status(s).json({ jsonrpc: "2.0", error: { code, message }, id: null })\<close> and the
  bodies without an error code (\<^verbatim>\<open>{ error: "..." }\<close>, plain text).
\<close>

definition rpc_error :: "int \<Rightarrow> int \<Rightarrow> string \<Rightarrow> response" where
  "rpc_error s c m = \<lparr>status = s, code = Some c, message = m\<rparr>"

definition plain_error :: "int \<Rightarrow> string \<Rightarrow> response" where
  "plain_error s m = \<lparr>status = s, code = None, message = m\<rparr>"

record env =
  DATAFORSEO_USERNAME :: "string option"
  DATAFORSEO_PASSWORD :: "string option"

definition startsWith :: "string \<Rightarrow> string \<Rightarrow> bool" where
  "startsWith s p = (take (length p) s = p)"

text \<open>\<^verbatim>\<open>s.split(c)\<close> for a one-character separator: never empty, \<^verbatim>\<open>"".split(c)\<close> is \<^verbatim>\<open>[""]\<close>.\<close>

fun split :: "string \<Rightarrow> char \<Rightarrow> string list" where
  "split [] c = [[]]"
| "split (x # xs) c =
     (if x = c then [] # split xs c
      else (case split xs c of [] \<Rightarrow> [[x]] | p # ps \<Rightarrow> (x # p) # ps))"

text \<open>An array read: \<^verbatim>\<open>undefined\<close> beyond the end.\<close>

fun nth_opt :: "'a list \<Rightarrow> nat \<Rightarrow> 'a option" where
  "nth_opt [] n = None"
| "nth_opt (x # xs) 0 = Some x"
| "nth_opt (x # xs) (Suc n) = nth_opt xs n"

datatype mw_result =
    Next "string option" "string option"
  | Reply response
  | Threw

text \<open>
  \<^verbatim>\<open>authMiddleware\<close> (the same code in both variants). The platform's
  \<^verbatim>\<open>Buffer.from(s, "base64").toString("utf-8")\<close> is the parameter \<open>decode\<close>, \<open>None\<close> when
  it throws: the Basic branch has no handler for that, the Bearer branch has one.
  \<open>Next username password\<close> is \<^verbatim>\<open>next()\<close> with the two request properties as they are then.
\<close>

definition authMiddleware :: "(string \<Rightarrow> string option) \<Rightarrow> string option \<Rightarrow> mw_result" where
  "authMiddleware decode authHeader =
     (if falsy authHeader then Next None None
      else if startsWith (prop_key authHeader) ''Basic '' then
        (case nth_opt (split (prop_key authHeader) CHR '' '') 1 of
           None \<Rightarrow> Threw
         | Some base64Credentials \<Rightarrow>
             (case decode base64Credentials of
                None \<Rightarrow> Threw
              | Some credentials \<Rightarrow>
                  (let username = nth_opt (split credentials CHR '':'') 0;
                       password = nth_opt (split credentials CHR '':'') 1
                   in if falsy username \<or> falsy password
                      then Reply (rpc_error 401 (-32001) ''Invalid credentials'')
                      else Next username password)))
      else if startsWith (prop_key authHeader) ''Bearer '' then
        (let token = nth_opt (split (prop_key authHeader) CHR '' '') 1
         in if falsy token
            then Reply (rpc_error 401 (-32001) ''Invalid Bearer token'')
            else (case decode (prop_key token) of
                    None \<Rightarrow> Reply (rpc_error 401 (-32001) ''Invalid Bearer token encoding'')
                  | Some credentials \<Rightarrow>
                      (let username = nth_opt (split credentials CHR '':'') 0;
                           password = nth_opt (split credentials CHR '':'') 1
                       in if falsy username \<or> falsy password
                          then Reply (rpc_error 401 (-32001)
                                 (''Invalid Bearer token format. Expected base64 encoded ''
                                  @ [CHR 0x27] @ ''username:password'' @ [CHR 0x27]))
                          else Next username password)))
      else Next None None)"

text \<open>
  The credential fallback that opens every protected handler:
  \<^verbatim>\<open>if (!req.username && !req.password) { ... if (!envUsername || !envPassword) { 401 } ... }\<close>.
  \<open>None\<close> is the rejection, whose body differs between handlers.
\<close>

definition resolve_credentials :: "env \<Rightarrow> string option \<Rightarrow> string option \<Rightarrow> (string option \<times> string option) option" where
  "resolve_credentials ev username password =
     (if falsy username \<and> falsy password
      then (if falsy (DATAFORSEO_USERNAME ev) \<or> falsy (DATAFORSEO_PASSWORD ev)
            then None
            else Some (DATAFORSEO_USERNAME ev, DATAFORSEO_PASSWORD ev))
      else Some (username, password))"

subsection \<open>Handlers of the session-tracking variant\<close>

text \<open>
  What a handler does with a request: it answers itself, or hands the request to the
  stored transport (\<^verbatim>\<open>handleRequest\<close>, \<^verbatim>\<open>handlePostMessage\<close>), or builds
  \<^verbatim>\<open>getServer(username, password)\<close>, connects it to a new transport and lets that one
  handle the request, or (stateless REST handlers) goes on past the credential check.
  \<open>Uncaught\<close> is an exception that escaped the middleware. What the SDK answers after a
  hand-over is outside the repository.
\<close>

datatype outcome =
    Responded response
  | Resume transport_handle
  | Start transport_handle "string option" "string option"
  | Proceed "string option" "string option"
  | Uncaught

definition AUTH_REQUIRED :: string where
  "AUTH_REQUIRED = ''Authentication required. Provide DataForSEO credentials.''"

definition DIFFERENT_PROTOCOL :: string where
  "DIFFERENT_PROTOCOL = ''Bad Request: Session exists but uses a different transport protocol''"

text \<open>
  The handler of \<^verbatim>\<open>app.all("/mcp", authMiddleware, ...)\<close>, up to the call of
  \<^verbatim>\<open>transport.handleRequest\<close>. Its \<^verbatim>\<open>catch\<close> (500, code -32603) is for exceptions of the
  SDK calls, which are not part of the model.
\<close>

definition mcp_all :: "env \<Rightarrow> int \<Rightarrow> request \<Rightarrow> string option \<Rightarrow> string option \<Rightarrow> world \<Rightarrow> outcome \<times> world" where
  "mcp_all ev now req username password w =
     (case resolve_credentials ev username password of
        None \<Rightarrow> (Responded (rpc_error 401 (-32001) AUTH_REQUIRED), w)
      | Some (u, p) \<Rightarrow>
          (let sid = mcp_session_id req;
               found = (if falsy sid then Undefined else get_transport (transports w) (prop_key sid))
           in case found of
                Own transportData \<Rightarrow>
                  if cls (transport transportData) = StreamableHTTPServerTransport
                  then (Resume (transport transportData),
                        w\<lparr>transports := AList.update (prop_key sid)
                             (transportData\<lparr>lastActivity := now\<rparr>) (transports w)\<rparr>)
                  else (Responded (rpc_error 400 (-32000) DIFFERENT_PROTOCOL), w)
              | Inherited \<Rightarrow> (Responded (rpc_error 400 (-32000) DIFFERENT_PROTOCOL), w)
              | Undefined \<Rightarrow>
                  if falsy sid \<and> req_method req = ''POST'' \<and> isInitializeRequest req
                  then (Start \<lparr>cls = StreamableHTTPServerTransport, sessionId = None\<rparr> u p, w)
                  else (Responded (rpc_error 400 (-32000)
                          ''Bad Request: No valid session ID provided''), w)))"

text \<open>
  The handler of \<^verbatim>\<open>app.get("/sse", ...)\<close>; \<open>newId\<close> is the session id the new
  \<^verbatim>\<open>SSEServerTransport\<close> gives itself.
\<close>

definition sse_get :: "env \<Rightarrow> int \<Rightarrow> string \<Rightarrow> string option \<Rightarrow> string option \<Rightarrow> world \<Rightarrow> outcome \<times> world" where
  "sse_get ev now newId username password w =
     (case resolve_credentials ev username password of
        None \<Rightarrow> (Responded (rpc_error 401 (-32001) AUTH_REQUIRED), w)
      | Some (u, p) \<Rightarrow>
          (let t = \<lparr>cls = SSEServerTransport, sessionId = Some newId\<rparr>
           in (Start t u p,
               w\<lparr>transports := AList.update (prop_key (sessionId t))
                    \<lparr>transport = t, lastActivity = now\<rparr> (transports w)\<rparr>)))"

text \<open>The handler of \<^verbatim>\<open>app.post("/messages", ...)\<close>.\<close>

definition messages_post :: "env \<Rightarrow> int \<Rightarrow> request \<Rightarrow> string option \<Rightarrow> string option \<Rightarrow> world \<Rightarrow> outcome \<times> world" where
  "messages_post ev now req username password w =
     (case resolve_credentials ev username password of
        None \<Rightarrow> (Responded (rpc_error 401 (-32001) AUTH_REQUIRED), w)
      | Some (u, p) \<Rightarrow>
          (case get_transport (transports w) (prop_key (query_sessionId req)) of
             Undefined \<Rightarrow> (Responded (plain_error 400 ''No transport found for sessionId''), w)
           | Inherited \<Rightarrow> (Responded (rpc_error 400 (-32000) DIFFERENT_PROTOCOL), w)
           | Own transportData \<Rightarrow>
               if cls (transport transportData) \<noteq> SSEServerTransport
               then (Responded (rpc_error 400 (-32000) DIFFERENT_PROTOCOL), w)
               else (Resume (transport transportData),
                     w\<lparr>transports := AList.update (prop_key (query_sessionId req))
                          (transportData\<lparr>lastActivity := now\<rparr>) (transports w)\<rparr>)))"

text \<open>A route with \<^verbatim>\<open>authMiddleware\<close> in front of its handler.\<close>

definition with_auth :: "(string \<Rightarrow> string option) \<Rightarrow> request \<Rightarrow> (string option \<Rightarrow> string option \<Rightarrow> world \<Rightarrow> outcome \<times> world) \<Rightarrow> world \<Rightarrow> outcome \<times> world" where
  "with_auth decode req handler w =
     (case authMiddleware decode (authorization req) of
        Next username password \<Rightarrow> handler username password w
      | Reply r \<Rightarrow> (Responded r, w)
      | Threw \<Rightarrow> (Uncaught, w))"

definition route_mcp :: "(string \<Rightarrow> string option) \<Rightarrow> env \<Rightarrow> int \<Rightarrow> request \<Rightarrow> world \<Rightarrow> outcome \<times> world" where
  "route_mcp decode ev now req w = with_auth decode req (mcp_all ev now req) w"

definition route_sse :: "(string \<Rightarrow> string option) \<Rightarrow> env \<Rightarrow> int \<Rightarrow> string \<Rightarrow> request \<Rightarrow> world \<Rightarrow> outcome \<times> world" where
  "route_sse decode ev now newId req w = with_auth decode req (sse_get ev now newId) w"

definition route_messages :: "(string \<Rightarrow> string option) \<Rightarrow> env \<Rightarrow> int \<Rightarrow> request \<Rightarrow> world \<Rightarrow> outcome \<times> world" where
  "route_messages decode ev now req w = with_auth decode req (messages_post ev now req) w"

subsection \<open>Handlers of the stateless variant\<close>

text \<open>The stateless variant keeps no store; its routes map a request to an outcome.\<close>

definition with_auth_stateless :: "(string \<Rightarrow> string option) \<Rightarrow> request \<Rightarrow> (string option \<Rightarrow> string option \<Rightarrow> outcome) \<Rightarrow> outcome" where
  "with_auth_stateless decode req handler =
     (case authMiddleware decode (authorization req) of
        Next username password \<Rightarrow> handler username password
      | Reply r \<Rightarrow> Responded r
      | Threw \<Rightarrow> Uncaught)"

definition REST_AUTH_REQUIRED :: string where
  "REST_AUTH_REQUIRED =
     ''Authentication required. Provide DataForSEO credentials via Basic Auth or environment variables.''"

text \<open>\<^verbatim>\<open>app.get("/tools", authMiddleware, ...)\<close>\<close>

definition tools_get :: "env \<Rightarrow> string option \<Rightarrow> string option \<Rightarrow> outcome" where
  "tools_get ev username password =
     (case resolve_credentials ev username password of
        None \<Rightarrow> Responded (plain_error 401 REST_AUTH_REQUIRED)
      | Some (u, p) \<Rightarrow> Proceed u p)"

text \<open>
  \<^verbatim>\<open>app.post("/tool", authMiddleware, ...)\<close>: the \<^verbatim>\<open>tool\<close> parameter of the parsed body
  (an object) is checked first; \<open>body_tool\<close> is its truthiness.
\<close>

definition tool_post :: "env \<Rightarrow> request \<Rightarrow> string option \<Rightarrow> string option \<Rightarrow> outcome" where
  "tool_post ev req username password =
     (if \<not> body_tool req then Responded (plain_error 400 ''Missing 'tool' parameter'')
      else (case resolve_credentials ev username password of
              None \<Rightarrow> Responded (plain_error 401 REST_AUTH_REQUIRED)
            | Some (u, p) \<Rightarrow> Proceed u p))"

text \<open>\<^verbatim>\<open>app.post("/mcp", authMiddleware, ...)\<close>: a new server and transport per request.\<close>

definition mcp_post :: "env \<Rightarrow> string option \<Rightarrow> string option \<Rightarrow> outcome" where
  "mcp_post ev username password =
     (case resolve_credentials ev username password of
        None \<Rightarrow> Responded (rpc_error 401 (-32001) AUTH_REQUIRED)
      | Some (u, p) \<Rightarrow> Start \<lparr>cls = StreamableHTTPServerTransport, sessionId = None\<rparr> u p)"

text \<open>\<^verbatim>\<open>app.get("/mcp", ...)\<close> and \<^verbatim>\<open>app.delete("/mcp", ...)\<close>: no middleware, one answer.\<close>

definition mcp_get :: "request \<Rightarrow> outcome" where
  "mcp_get req = Responded (rpc_error 405 (-32000) ''Method not allowed.'')"

definition mcp_delete :: "request \<Rightarrow> outcome" where
  "mcp_delete req = Responded (rpc_error 405 (-32000) ''Method not allowed.'')"

text \<open>\<^verbatim>\<open>app.post("/validate-credentials", authMiddleware, ...)\<close>\<close>

definition validate_credentials :: "env \<Rightarrow> string option \<Rightarrow> string option \<Rightarrow> outcome" where
  "validate_credentials ev username password =
     (case resolve_credentials ev username password of
        None \<Rightarrow> Responded (plain_error 401 ''No credentials provided'')
      | Some (u, p) \<Rightarrow> Proceed u p)"

definition route_tools :: "(string \<Rightarrow> string option) \<Rightarrow> env \<Rightarrow> request \<Rightarrow> outcome" where
  "route_tools decode ev req = with_auth_stateless decode req (tools_get ev)"

definition route_tool :: "(string \<Rightarrow> string option) \<Rightarrow> env \<Rightarrow> request \<Rightarrow> outcome" where
  "route_tool decode ev req = with_auth_stateless decode req (tool_post ev req)"

definition route_mcp_post :: "(string \<Rightarrow> string option) \<Rightarrow> env \<Rightarrow> request \<Rightarrow> outcome" where
  "route_mcp_post decode ev req = with_auth_stateless decode req (mcp_post ev)"

definition route_validate_credentials :: "(string \<Rightarrow> string option) \<Rightarrow> env \<Rightarrow> request \<Rightarrow> outcome" where
  "route_validate_credentials decode ev req = with_auth_stateless decode req (validate_credentials ev)"

subsection \<open>Base64\<close>

text \<open>
  A decoder for well-formed Base64 text (RFC 4648, standard or URL-safe alphabet, padding
  optional), to run the middleware on concrete headers. Bytes are characters.
\<close>

definition base64_alphabet :: string where
  "base64_alphabet = ''ABCDEFGHIJKLMNOPQRSTUVWXYZabcdefghijklmnopqrstuvwxyz0123456789+/''"

fun index_of :: "char \<Rightarrow> string \<Rightarrow> nat option" where
  "index_of c [] = None"
| "index_of c (x # xs) = (if x = c then Some 0 else map_option Suc (index_of c xs))"

definition sextet :: "char \<Rightarrow> nat option" where
  "sextet c =
     (if c = CHR ''-'' then Some 62 else if c = CHR ''_'' then Some 63
      else index_of c base64_alphabet)"

fun sextets :: "string \<Rightarrow> nat list" where
  "sextets [] = []"
| "sextets (c # cs) =
     (if c = CHR ''='' then []
      else (case sextet c of None \<Rightarrow> sextets cs | Some v \<Rightarrow> v # sextets cs))"

fun octets :: "nat list \<Rightarrow> nat list" where
  "octets (a # b # c # d # r) =
     (a * 4 + b div 16) # ((b mod 16) * 16 + c div 4) # ((c mod 4) * 64 + d) # octets r"
| "octets [a, b, c] = [a * 4 + b div 16, (b mod 16) * 16 + c div 4]"
| "octets [a, b] = [a * 4 + b div 16]"
| "octets r = []"

definition base64_decode :: "string \<Rightarrow> string option" where
  "base64_decode s = Some (map char_of (octets (sextets s)))"

subsection \<open>Example states\<close>

definition sse1 :: transport_handle where
  "sse1 = \<lparr>cls = SSEServerTransport, sessionId = Some ''s1''\<rparr>"

definition http2 :: transport_handle where
  "http2 = \<lparr>cls = StreamableHTTPServerTransport, sessionId = Some ''s2''\<rparr>"

text \<open>An SSE session last active at time 0 and a Streamable session last active at 50000.\<close>

definition world2 :: world where
  "world2 =
     \<lparr>transports = [(''s1'', \<lparr>transport = sse1, lastActivity = 0\<rparr>),
                    (''s2'', \<lparr>transport = http2, lastActivity = 50000\<rparr>)],
      closeCalls = [], errorLog = [], unhandledRejections = []\<rparr>"

definition http1 :: transport_handle where
  "http1 = \<lparr>cls = StreamableHTTPServerTransport, sessionId = Some ''s1''\<rparr>"

definition env0 :: env where
  "env0 = \<lparr>DATAFORSEO_USERNAME = None, DATAFORSEO_PASSWORD = None\<rparr>"

definition env1 :: env where
  "env1 = \<lparr>DATAFORSEO_USERNAME = Some ''login'', DATAFORSEO_PASSWORD = Some ''secret''\<rparr>"

definition bare_get :: request where
  "bare_get = \<lparr>req_method = ''GET'', authorization = None, mcp_session_id = None,
                query_sessionId = None, isInitializeRequest = False, body_tool = False\<rparr>"

definition old_session_post :: request where
  "old_session_post = \<lparr>req_method = ''POST'', authorization = Some ''Basic dTpw'',
       mcp_session_id = Some ''s1'', query_sessionId = None, isInitializeRequest = False,
       body_tool = False\<rparr>"

definition anonymous_post :: request where
  "anonymous_post = \<lparr>req_method = ''POST'', authorization = None,
       mcp_session_id = Some ''s9'', query_sessionId = None, isInitializeRequest = False,
       body_tool = False\<rparr>"

definition live_get :: request where
  "live_get = \<lparr>req_method = ''GET'', authorization = None, mcp_session_id = Some ''s2'',
                query_sessionId = None, isInitializeRequest = False, body_tool = False\<rparr>"

definition follow_up_post :: request where
  "follow_up_post = \<lparr>req_method = ''POST'', authorization = None,
       mcp_session_id = Some ''s2'', query_sessionId = None, isInitializeRequest = False,
       body_tool = False\<rparr>"

section \<open>Properties\<close>

lemma try_close_transports: "transports (try_close outcome sid t w) = transports w"
  by (simp add: try_close_def close_def split: close_outcome.splits)

lemma try_close_closeCalls: "closeCalls (try_close outcome sid t w) = closeCalls w @ [t]"
  by (simp add: try_close_def close_def split: close_outcome.splits)

subsection \<open>The sweep\<close>

lemma sweep_entry_transports:
  "transports (sweep_entry outcome now (sid, e) w) =
     (if now - lastActivity e > CONNECTION_TIMEOUT then AList.delete sid (transports w)
      else transports w)"
  by (simp add: sweep_entry_def Let_def try_close_transports)

lemma stale_keys_Cons:
  "fst ` {x \<in> set ((sid, e) # ents). P (snd x)} =
     (if P e then insert sid (fst ` {x \<in> set ents. P (snd x)})
      else fst ` {x \<in> set ents. P (snd x)})"
  by (auto simp: image_iff)

lemma filter_delete_keys:
  "filter (\<lambda>(k, e). k \<notin> S) (AList.delete sid s) = filter (\<lambda>(k, e). k \<notin> insert sid S) s"
  by (induction s) (auto simp: AList.delete_eq)

lemma fold_sweep_transports:
  "transports (fold (sweep_entry outcome now) ents w) =
     filter (\<lambda>(k, e). k \<notin> fst ` {x \<in> set ents. now - lastActivity (snd x) > CONNECTION_TIMEOUT})
       (transports w)"
proof (induction ents arbitrary: w)
  case Nil
  then show ?case by simp
next
  case (Cons x ents)
  obtain sid e where x: "x = (sid, e)" by (cases x)
  let ?S = "fst ` {x \<in> set ents. now - lastActivity (snd x) > CONNECTION_TIMEOUT}"
  have "transports (fold (sweep_entry outcome now) (x # ents) w) =
          filter (\<lambda>(k, e). k \<notin> ?S) (transports (sweep_entry outcome now (sid, e) w))"
    by (simp add: Cons.IH x)
  also have "\<dots> = filter (\<lambda>(k, v). k \<notin> (if now - lastActivity e > CONNECTION_TIMEOUT
                                          then insert sid ?S else ?S)) (transports w)"
    by (cases "now - lastActivity e > CONNECTION_TIMEOUT")
       (simp_all only: sweep_entry_transports filter_delete_keys if_True if_False)
  also have "(if now - lastActivity e > CONNECTION_TIMEOUT then insert sid ?S else ?S) =
      fst ` {y \<in> set (x # ents). now - lastActivity (snd y) > CONNECTION_TIMEOUT}"
    unfolding x by (rule stale_keys_Cons[symmetric])
  finally show ?case .
qed

lemma sweep_entry_closeCalls:
  "closeCalls (sweep_entry outcome now (sid, e) w) =
     (if now - lastActivity e > CONNECTION_TIMEOUT then closeCalls w @ [transport e]
      else closeCalls w)"
  by (simp add: sweep_entry_def Let_def try_close_closeCalls)

lemma fold_sweep_closeCalls:
  "closeCalls (fold (sweep_entry outcome now) ents w) =
     closeCalls w @ map (\<lambda>(k, e). transport e)
       (filter (\<lambda>(k, e). now - lastActivity e > CONNECTION_TIMEOUT) ents)"
proof (induction ents arbitrary: w)
  case Nil
  then show ?case by simp
next
  case (Cons x ents)
  obtain sid e where x: "x = (sid, e)" by (cases x)
  show ?case
    unfolding x by (simp add: Cons.IH sweep_entry_closeCalls)
qed

lemma stale_keys_distinct:
  assumes "distinct (map fst s)" "set ents = set s" "(k, e) \<in> set s"
  shows "k \<in> fst ` {x \<in> set ents. now - lastActivity (snd x) > CONNECTION_TIMEOUT}
         \<longleftrightarrow> now - lastActivity e > CONNECTION_TIMEOUT"
proof
  assume "k \<in> fst ` {x \<in> set ents. now - lastActivity (snd x) > CONNECTION_TIMEOUT}"
  then obtain e' where e': "(k, e') \<in> set s" "now - lastActivity e' > CONNECTION_TIMEOUT"
    using assms(2) by auto
  from assms(1) e'(1) assms(3) have "e' = e"
    by (rule eq_key_imp_eq_value)
  with e'(2) show "now - lastActivity e > CONNECTION_TIMEOUT" by simp
next
  assume st: "now - lastActivity e > CONNECTION_TIMEOUT"
  have "(k, e) \<in> {x \<in> set ents. now - lastActivity (snd x) > CONNECTION_TIMEOUT}"
    using assms(2,3) st by simp
  then show "k \<in> fst ` {x \<in> set ents. now - lastActivity (snd x) > CONNECTION_TIMEOUT}"
    by (rule image_eqI[rotated]) simp
qed

lemma sweep_any_order:
  assumes "distinct (map fst (transports w))" "set ents = set (transports w)"
  shows "transports (fold (sweep_entry outcome now) ents w) =
           filter (\<lambda>(k, e). \<not> now - lastActivity e > CONNECTION_TIMEOUT) (transports w)"
  unfolding fold_sweep_transports
proof (rule filter_cong[OF refl])
  fix x assume mem: "x \<in> set (transports w)"
  obtain k e where x: "x = (k, e)" by (cases x)
  show "(case x of (k, e) \<Rightarrow> k \<notin> fst ` {x \<in> set ents. now - lastActivity (snd x) > CONNECTION_TIMEOUT})
           = (case x of (k, e) \<Rightarrow> \<not> now - lastActivity e > CONNECTION_TIMEOUT)"
    using stale_keys_distinct[OF assms mem[unfolded x]] by (simp add: x)
qed

lemma sweep_keeps_fresh:
  assumes "distinct (map fst (transports w))" "map_of (transports w) sid = Some e"
    and "now - lastActivity e \<le> CONNECTION_TIMEOUT"
  shows "map_of (transports (cleanupStaleConnections outcome now w)) sid = Some e"
proof -
  let ?keep = "\<lambda>(k, e). \<not> now - lastActivity e > CONNECTION_TIMEOUT"
  have mem: "(sid, e) \<in> set (filter ?keep (transports w))"
    using assms(2,3) by (auto dest: map_of_SomeD)
  have "distinct (map fst (filter ?keep (transports w)))"
    using assms(1) by (simp add: distinct_map_filter)
  then have "map_of (filter ?keep (transports w)) sid = Some e"
    using mem by (rule map_of_is_SomeI)
  then show ?thesis
    by (simp add: cleanupStaleConnections_def sweep_any_order[OF assms(1)])
qed

text \<open>
  C1 (as stated): the eviction timeout is strictly greater than the sweep interval.
  The constants of the source say otherwise.
\<close>

theorem timeout_not_longer_than_interval:
  "\<not> CONNECTION_TIMEOUT > CLEANUP_INTERVAL"
  by (simp add: CONNECTION_TIMEOUT_def CLEANUP_INTERVAL_def)

text \<open>
  C1 (amended): the eviction timeout (30000 ms) is strictly shorter than the sweep interval
  (60000 ms); what a sweep guarantees is that an entry whose inactivity at the time of the
  sweep does not exceed the timeout stays in the store.
\<close>

theorem timeout_shorter_than_interval:
  assumes "distinct (map fst (transports w))" and "map_of (transports w) sid = Some e"
    and "now - lastActivity e \<le> CONNECTION_TIMEOUT"
  shows "CONNECTION_TIMEOUT = 30000 \<and> CLEANUP_INTERVAL = 60000
       \<and> CONNECTION_TIMEOUT < CLEANUP_INTERVAL
       \<and> map_of (transports (cleanupStaleConnections outcome now w)) sid = Some e"
proof -
  have "map_of (transports (cleanupStaleConnections outcome now w)) sid = Some e"
    using assms by (rule sweep_keeps_fresh)
  moreover have "CONNECTION_TIMEOUT = 30000 \<and> CLEANUP_INTERVAL = 60000
       \<and> CONNECTION_TIMEOUT < CLEANUP_INTERVAL"
    by (simp add: CONNECTION_TIMEOUT_def CLEANUP_INTERVAL_def)
  ultimately show ?thesis by blast
qed

theorem timeout_shorter_than_interval_witness:
  "distinct (map fst (transports world2))
   \<and> map_of (transports world2) ''s2'' = Some \<lparr>transport = http2, lastActivity = 50000\<rparr>
   \<and> 60000 - lastActivity \<lparr>transport = http2, lastActivity = 50000\<rparr> \<le> CONNECTION_TIMEOUT
   \<and> CONNECTION_TIMEOUT < CLEANUP_INTERVAL
   \<and> map_of (transports (cleanupStaleConnections (\<lambda>t. Throws) 60000 world2)) ''s2''
       = Some \<lparr>transport = http2, lastActivity = 50000\<rparr>"
proof -
  have h1: "distinct (map fst (transports world2))"
    by (simp add: world2_def)
  have h2: "map_of (transports world2) ''s2'' = Some \<lparr>transport = http2, lastActivity = 50000\<rparr>"
    by (simp add: world2_def)
  have h3: "60000 - lastActivity \<lparr>transport = http2, lastActivity = 50000\<rparr> \<le> CONNECTION_TIMEOUT"
    by (simp add: CONNECTION_TIMEOUT_def)
  show ?thesis
    using h1 h2 h3 timeout_shorter_than_interval[OF h1 h2 h3, of "\<lambda>t. Throws"] by blast
qed

text \<open>
  C6: one sweep at time \<open>now\<close> removes exactly the entries with
  \<open>now - lastActivity > CONNECTION_TIMEOUT\<close> and leaves the others as they are, in whatever
  order the entries are visited; every stale entry's handle is closed, whether or not the
  closing of another one raised.
\<close>

theorem sweep_evicts_exactly_stale:
  assumes "distinct (map fst (transports w))" and "mset ents = mset (transports w)"
  shows "transports (fold (sweep_entry outcome now) ents w) =
           filter (\<lambda>(sid, e). \<not> now - lastActivity e > CONNECTION_TIMEOUT) (transports w)
       \<and> transports (cleanupStaleConnections outcome now w) =
           filter (\<lambda>(sid, e). \<not> now - lastActivity e > CONNECTION_TIMEOUT) (transports w)
       \<and> closeCalls (fold (sweep_entry outcome now) ents w) =
           closeCalls w @ map (\<lambda>(sid, e). transport e)
             (filter (\<lambda>(sid, e). now - lastActivity e > CONNECTION_TIMEOUT) ents)"
proof -
  have "set ents = set (transports w)" using assms(2) by (rule mset_eq_setD)
  then show ?thesis
    using assms(1) by (simp add: sweep_any_order cleanupStaleConnections_def fold_sweep_closeCalls)
qed

theorem sweep_evicts_exactly_stale_witness:
  "distinct (map fst (transports world2))
   \<and> mset (rev (transports world2)) = mset (transports world2)
   \<and> transports (fold (sweep_entry (\<lambda>t. Throws) 60000) (rev (transports world2)) world2)
       = [(''s2'', \<lparr>transport = http2, lastActivity = 50000\<rparr>)]
   \<and> transports (cleanupStaleConnections (\<lambda>t. Throws) 60000 world2)
       = [(''s2'', \<lparr>transport = http2, lastActivity = 50000\<rparr>)]
   \<and> closeCalls (fold (sweep_entry (\<lambda>t. Throws) 60000) (rev (transports world2)) world2) = [sse1]"
proof -
  have h1: "distinct (map fst (transports world2))"
    by (simp add: world2_def)
  have h2: "mset (rev (transports world2)) = mset (transports world2)"
    by simp
  have c: "transports (fold (sweep_entry (\<lambda>t. Throws) 60000) (rev (transports world2)) world2)
       = [(''s2'', \<lparr>transport = http2, lastActivity = 50000\<rparr>)]
   \<and> transports (cleanupStaleConnections (\<lambda>t. Throws) 60000 world2)
       = [(''s2'', \<lparr>transport = http2, lastActivity = 50000\<rparr>)]
   \<and> closeCalls (fold (sweep_entry (\<lambda>t. Throws) 60000) (rev (transports world2)) world2) = [sse1]"
    using sweep_evicts_exactly_stale[OF h1 h2, of "\<lambda>t. Throws" 60000]
    by (simp add: world2_def CONNECTION_TIMEOUT_def)
  show ?thesis
    using h1 h2 c by blast
qed

subsection \<open>Eviction and registration\<close>

lemma try_close_errorLog:
  "errorLog (try_close outcome sid t w) = (if outcome t = Throws then errorLog w @ [sid] else errorLog w)"
  by (simp add: try_close_def close_def split: close_outcome.splits)

lemma try_close_unhandledRejections:
  "unhandledRejections (try_close outcome sid t w) =
     (if outcome t = Rejects then unhandledRejections w @ [t] else unhandledRejections w)"
  by (simp add: try_close_def close_def split: close_outcome.splits)

lemma get_transport_delete:
  "k \<notin> set Object_prototype_keys \<Longrightarrow> get_transport (AList.delete k s) k = Undefined"
  by (simp add: get_transport_def AList.delete_conv')

lemma cleanup_streamable_idem:
  assumes "prop_key (sessionId t) \<notin> set Object_prototype_keys"
  shows "cleanup_streamable outcome t (cleanup_streamable outcome t w) = cleanup_streamable outcome t w"
  using assms
  by (simp add: cleanup_streamable_def Let_def try_close_transports get_transport_delete)

lemma cleanup_streamable_absent:
  assumes "get_transport (transports w) (prop_key (sessionId t)) = Undefined"
  shows "cleanup_streamable outcome t w = w"
  using assms by (simp add: cleanup_streamable_def Let_def)

lemma cleanup_sse_removes:
  "map_of (transports (cleanup_sse outcome t w)) (prop_key (sessionId t)) = None"
  by (simp add: cleanup_sse_def Let_def AList.delete_conv')

lemma cleanup_streamable_removes:
  "\<not> falsy (sessionId t) \<Longrightarrow>
   map_of (transports (cleanup_streamable outcome t w)) (prop_key (sessionId t)) = None"
  by (simp add: cleanup_streamable_def Let_def AList.delete_conv' get_transport_def split: option.splits)

lemma sweep_entry_removes:
  "now - lastActivity e > CONNECTION_TIMEOUT \<Longrightarrow>
   map_of (transports (sweep_entry outcome now (sid, e) w)) sid = None"
  by (simp add: sweep_entry_def Let_def AList.delete_conv')

text \<open>
  Keys stay distinct, as the keys of an object are: every operation on the store goes
  through \<^const>\<open>AList.update\<close> or \<^const>\<open>AList.delete\<close>.
\<close>

lemma distinct_onsessioninitialized:
  "distinct (map fst (transports w)) \<Longrightarrow>
   distinct (map fst (transports (onsessioninitialized t now sid w)))"
  by (simp add: onsessioninitialized_def distinct_update)

lemma distinct_cleanup_streamable:
  "distinct (map fst (transports w)) \<Longrightarrow>
   distinct (map fst (transports (cleanup_streamable outcome t w)))"
  by (simp add: cleanup_streamable_def Let_def try_close_transports distinct_delete)

lemma distinct_cleanup_sse:
  "distinct (map fst (transports w)) \<Longrightarrow>
   distinct (map fst (transports (cleanup_sse outcome t w)))"
  by (simp add: cleanup_sse_def Let_def try_close_transports distinct_delete)

lemma distinct_cleanupStaleConnections:
  "distinct (map fst (transports w)) \<Longrightarrow>
   distinct (map fst (transports (cleanupStaleConnections outcome now w)))"
  by (simp add: cleanupStaleConnections_def fold_sweep_transports distinct_map_filter)

lemma distinct_close_all:
  "distinct (map fst (transports w)) \<Longrightarrow>
   distinct (map fst (transports (close_all outcome ks w)))"
  by (induction ks arbitrary: w)
     (auto simp: close_def distinct_delete split: option.splits close_outcome.splits)

lemma distinct_sigint:
  "distinct (map fst (transports w)) \<Longrightarrow> distinct (map fst (transports (sigint outcome w)))"
  by (simp add: sigint_def distinct_close_all)

text \<open>
  The SIGINT loop: an entry whose handle throws or rejects on close stays in the store; when
  every close returns, the store is empty afterwards.
\<close>

lemma close_all_keeps_failing:
  assumes "map_of (transports w) sid = Some e" and "outcome (transport e) \<noteq> Returns"
  shows "map_of (transports (close_all outcome ks w)) sid = Some e"
  using assms(1)
proof (induction ks arbitrary: w)
  case Nil
  then show ?case by simp
next
  case (Cons k ks)
  show ?case
  proof (cases "map_of (transports w) k")
    case None
    then show ?thesis using Cons by simp
  next
    case (Some e')
    have kept: "map_of (transports (w\<lparr>closeCalls := closeCalls w @ [transport e'],
                                  errorLog := errorLog w @ [k]\<rparr>)) sid = Some e"
      using Cons.prems by simp
    show ?thesis
    proof (cases "outcome (transport e')")
      case Returns
      then have "k \<noteq> sid" using Some Cons.prems assms(2) by auto
      then have "map_of (transports (w\<lparr>closeCalls := closeCalls w @ [transport e'],
                                  transports := AList.delete k (transports w)\<rparr>)) sid = Some e"
        using Cons.prems by (simp add: AList.delete_conv')
      from Cons.IH[OF this] show ?thesis
        using Some Returns by (simp add: close_def)
    next
      case Throws
      from Cons.IH[OF kept] show ?thesis
        using Some Throws by (simp add: close_def)
    next
      case Rejects
      from Cons.IH[OF kept] show ?thesis
        using Some Rejects by (simp add: close_def)
    qed
  qed
qed

lemma sigint_keeps_failing:
  assumes "map_of (transports w) sid = Some e" and "outcome (transport e) \<noteq> Returns"
  shows "map_of (transports (sigint outcome w)) sid = Some e"
  using assms by (simp add: sigint_def close_all_keeps_failing)

lemma filter_absent_key:
  assumes "map_of s k = None"
  shows "filter (\<lambda>(k', e). k' \<notin> insert k S) s = filter (\<lambda>(k', e). k' \<notin> S) s"
proof (rule filter_cong[OF refl])
  fix x assume mem: "x \<in> set s"
  obtain k' e where x: "x = (k', e)" by (cases x)
  have "k' \<noteq> k"
    using assms mem x by (auto simp: map_of_eq_None_iff image_iff)
  then show "(case x of (k', e) \<Rightarrow> k' \<notin> insert k S) = (case x of (k', e) \<Rightarrow> k' \<notin> S)"
    by (simp add: x)
qed

lemma close_all_all_return:
  assumes "\<And>t. outcome t = Returns"
  shows "transports (close_all outcome ks w) = filter (\<lambda>(k, e). k \<notin> set ks) (transports w)"
proof (induction ks arbitrary: w)
  case Nil
  then show ?case by simp
next
  case (Cons k ks)
  show ?case
  proof (cases "map_of (transports w) k")
    case None
    then show ?thesis
      using filter_absent_key[OF None, of "set ks"] by (simp add: Cons.IH)
  next
    case (Some e')
    have nt: "outcome (transport e') = Returns" by (rule assms)
    have "transports (close_all outcome (k # ks) w) =
            filter (\<lambda>(k', e). k' \<notin> set ks) (AList.delete k (transports w))"
      using Some nt by (simp add: close_def Cons.IH)
    also have "\<dots> = filter (\<lambda>(k', e). k' \<notin> insert k (set ks)) (transports w)"
      by (rule filter_delete_keys)
    finally show ?thesis by simp
  qed
qed

lemma sigint_all_return:
  assumes "\<And>t. outcome t = Returns"
  shows "transports (sigint outcome w) = []"
proof -
  have "filter (\<lambda>(k, e). k \<notin> set (map fst (transports w))) (transports w) = []"
    by (force simp: filter_empty_conv)
  then show ?thesis
    by (simp only: sigint_def close_all_all_return[OF assms])
qed

text \<open>
  C2 (evaluation at the failing input): the \<^verbatim>\<open>/sse\<close> close callback fired twice for
  session \<open>s1\<close>. The store is the same after the second call, but the second call invokes
  \<^verbatim>\<open>close()\<close> once more; the guarded \<^verbatim>\<open>/mcp\<close> callback, fired twice, closes once.
\<close>

theorem sse_cleanup_closes_again:
  "transports (cleanup_sse (\<lambda>t. Returns) sse1 world2)
     = [(''s2'', \<lparr>transport = http2, lastActivity = 50000\<rparr>)]
   \<and> closeCalls (cleanup_sse (\<lambda>t. Returns) sse1 world2) = [sse1]
   \<and> transports (cleanup_sse (\<lambda>t. Returns) sse1 (cleanup_sse (\<lambda>t. Returns) sse1 world2))
     = [(''s2'', \<lparr>transport = http2, lastActivity = 50000\<rparr>)]
   \<and> closeCalls (cleanup_sse (\<lambda>t. Returns) sse1 (cleanup_sse (\<lambda>t. Returns) sse1 world2))
     = [sse1, sse1]
   \<and> closeCalls (cleanup_streamable (\<lambda>t. Returns) http2 (cleanup_streamable (\<lambda>t. Returns) http2 world2))
     = [http2]"
  by (simp add: cleanup_sse_def cleanup_streamable_def try_close_def close_def world2_def
      sse1_def http2_def prop_key_def falsy_def get_transport_def Let_def
      Object_prototype_keys_def)

text \<open>
  C7 (evaluation at the failing input): the handle of session \<open>s1\<close> raises on close.
  The SIGINT loop logs the error and goes on to \<open>s2\<close>, but \<open>s1\<close> stays in the store; the
  sweep and the \<^verbatim>\<open>/sse\<close> close callback remove it on the same input. The loop does the
  same when the promise of \<^verbatim>\<open>close()\<close> is rejected.
\<close>

theorem sigint_keeps_entry_when_close_throws:
  "transports (sigint (\<lambda>t. if t = sse1 then Throws else Returns) world2)
     = [(''s1'', \<lparr>transport = sse1, lastActivity = 0\<rparr>)]
   \<and> errorLog (sigint (\<lambda>t. if t = sse1 then Throws else Returns) world2) = [''s1'']
   \<and> closeCalls (sigint (\<lambda>t. if t = sse1 then Throws else Returns) world2) = [sse1, http2]
   \<and> transports (cleanupStaleConnections (\<lambda>t. if t = sse1 then Throws else Returns) 100000 world2) = []
   \<and> transports (cleanup_sse (\<lambda>t. if t = sse1 then Throws else Returns) sse1 world2)
     = [(''s2'', \<lparr>transport = http2, lastActivity = 50000\<rparr>)]
   \<and> transports (sigint (\<lambda>t. if t = sse1 then Rejects else Returns) world2)
     = [(''s1'', \<lparr>transport = sse1, lastActivity = 0\<rparr>)]
   \<and> errorLog (sigint (\<lambda>t. if t = sse1 then Rejects else Returns) world2) = [''s1'']"
  by (simp add: sigint_def cleanupStaleConnections_def sweep_entry_def cleanup_sse_def
      try_close_def close_def world2_def sse1_def http2_def prop_key_def Let_def
      CONNECTION_TIMEOUT_def)

text \<open>
  C4 (as stated): registering under an id that is present leaves the existing entry
  unchanged. Here \<open>s1\<close> holds an SSE handle and a Streamable handle is registered under it.
\<close>

theorem create_replaces_existing_entry:
  "\<not> (map_of (transports (onsessioninitialized http1 7 ''s1'' world2)) ''s1''
        = map_of (transports world2) ''s1'')"
  by (simp add: onsessioninitialized_def world2_def http1_def sse1_def)

text \<open>
  C4 (amended): registration never fails; afterwards the id maps to the new handle with
  \<open>lastActivity = now\<close>, whether or not it was present, every other id maps to what it
  mapped to, and nothing is closed or logged. The \<^verbatim>\<open>/sse\<close> handler registers its new
  transport in the same way once the credential check has passed.
\<close>

theorem create_overwrites:
  "map_of (transports (onsessioninitialized t now sid w))
     = (map_of (transports w))(sid \<mapsto> \<lparr>transport = t, lastActivity = now\<rparr>)
   \<and> closeCalls (onsessioninitialized t now sid w) = closeCalls w
   \<and> errorLog (onsessioninitialized t now sid w) = errorLog w
   \<and> snd (sse_get ev now newId username password w)
     = (if resolve_credentials ev username password = None then w
        else onsessioninitialized \<lparr>cls = SSEServerTransport, sessionId = Some newId\<rparr> now newId w)"
  by (auto simp: onsessioninitialized_def sse_get_def AList.update_conv' Let_def prop_key_def
      split: option.splits)

subsection \<open>Credential extraction\<close>

lemma falsy_simps:
  "falsy None" "falsy (Some s) = (s = [])"
  by (simp_all add: falsy_def)

lemma prop_key_Some: "prop_key (Some s) = s"
  by (simp add: prop_key_def)

lemma split_nonempty: "split s c \<noteq> []"
  by (induction s) (auto split: list.splits)

lemma split_no_sep: "c \<notin> set u \<Longrightarrow> split u c = [u]"
  by (induction u) auto

lemma split_at_sep: "c \<notin> set u \<Longrightarrow> split (u @ c # v) c = u # split v c"
  by (induction u) auto

lemma fields_of_pair:
  assumes "CHR '':'' \<notin> set user" "CHR '':'' \<notin> set pass"
  shows "nth_opt (split (user @ CHR '':'' # pass) CHR '':'') 0 = Some user"
    and "nth_opt (split (user @ CHR '':'' # pass) CHR '':'') 1 = Some pass"
  using assms by (simp_all add: split_at_sep split_no_sep)

lemma Basic_decoded:
  assumes "CHR '' '' \<notin> set tok" "decode tok = Some credentials"
  shows "authMiddleware decode (Some (''Basic '' @ tok)) =
           (if falsy (nth_opt (split credentials CHR '':'') 0)
               \<or> falsy (nth_opt (split credentials CHR '':'') 1)
            then Reply (rpc_error 401 (-32001) ''Invalid credentials'')
            else Next (nth_opt (split credentials CHR '':'') 0)
                      (nth_opt (split credentials CHR '':'') 1))"
  using assms
  by (simp add: authMiddleware_def falsy_simps prop_key_Some startsWith_def split_no_sep Let_def)

lemma Bearer_decoded:
  assumes "CHR '' '' \<notin> set tok" "tok \<noteq> []" "decode tok = Some credentials"
  shows "authMiddleware decode (Some (''Bearer '' @ tok)) =
           (if falsy (nth_opt (split credentials CHR '':'') 0)
               \<or> falsy (nth_opt (split credentials CHR '':'') 1)
            then Reply (rpc_error 401 (-32001)
                   (''Invalid Bearer token format. Expected base64 encoded ''
                    @ [CHR 0x27] @ ''username:password'' @ [CHR 0x27]))
            else Next (nth_opt (split credentials CHR '':'') 0)
                      (nth_opt (split credentials CHR '':'') 1))"
  using assms
  by (simp add: authMiddleware_def falsy_simps prop_key_Some startsWith_def split_no_sep Let_def)

lemma fields_bad:
  assumes "CHR '':'' \<notin> set cred
           \<or> (\<exists>u p. cred = u @ CHR '':'' # p \<and> CHR '':'' \<notin> set u \<and> (u = [] \<or> p = []))"
  shows "falsy (nth_opt (split cred CHR '':'') 0) \<or> falsy (nth_opt (split cred CHR '':'') 1)"
  using assms
proof
  assume "CHR '':'' \<notin> set cred"
  then show ?thesis by (simp add: split_no_sep falsy_simps)
next
  assume "\<exists>u p. cred = u @ CHR '':'' # p \<and> CHR '':'' \<notin> set u \<and> (u = [] \<or> p = [])"
  then obtain u p where c: "cred = u @ CHR '':'' # p" "CHR '':'' \<notin> set u" "u = [] \<or> p = []"
    by blast
  from c(3) show ?thesis
  proof
    assume "u = []"
    then show ?thesis using c(1) by (simp add: falsy_simps)
  next
    assume "p = []"
    then show ?thesis using c(1,2) by (simp add: split_at_sep falsy_simps)
  qed
qed

text \<open>
  C5 (amended): for a token without spaces that decodes to \<open>user:pass\<close> with \<open>user\<close> and
  \<open>pass\<close> non-empty and free of colons, both the Basic and the Bearer branch attach exactly
  \<open>(user, pass)\<close>; for a token that decodes to a text without a colon, or whose first
  colon has nothing before it or nothing after it, both answer 401 with code -32001.
\<close>

theorem authMiddleware_extracts_pair:
  assumes "tok \<noteq> []" and "CHR '' '' \<notin> set tok"
    and "decode tok = Some (user @ CHR '':'' # pass)"
    and "user \<noteq> []" and "pass \<noteq> []"
    and "CHR '':'' \<notin> set user" and "CHR '':'' \<notin> set pass"
    and "tok' \<noteq> []" and "CHR '' '' \<notin> set tok'"
    and "decode tok' = Some cred"
    and "CHR '':'' \<notin> set cred
         \<or> (\<exists>u p. cred = u @ CHR '':'' # p \<and> CHR '':'' \<notin> set u \<and> (u = [] \<or> p = []))"
  shows "authMiddleware decode (Some (''Basic '' @ tok)) = Next (Some user) (Some pass)
       \<and> authMiddleware decode (Some (''Bearer '' @ tok)) = Next (Some user) (Some pass)
       \<and> authMiddleware decode (Some (''Basic '' @ tok'))
           = Reply (rpc_error 401 (-32001) ''Invalid credentials'')
       \<and> authMiddleware decode (Some (''Bearer '' @ tok'))
           = Reply (rpc_error 401 (-32001)
               (''Invalid Bearer token format. Expected base64 encoded ''
                @ [CHR 0x27] @ ''username:password'' @ [CHR 0x27]))"
proof -
  note f = fields_of_pair[OF assms(6,7), unfolded One_nat_def]
  have a: "authMiddleware decode (Some (''Basic '' @ tok)) = Next (Some user) (Some pass)"
    by (simp only: Basic_decoded[where decode=decode and tok=tok, OF assms(2,3)])
       (simp add: f falsy_simps assms(4,5))
  have b: "authMiddleware decode (Some (''Bearer '' @ tok)) = Next (Some user) (Some pass)"
    by (simp only: Bearer_decoded[where decode=decode and tok=tok, OF assms(2,1,3)])
       (simp add: f falsy_simps assms(4,5))
  note bad = fields_bad[OF assms(11)]
  have c: "authMiddleware decode (Some (''Basic '' @ tok'))
           = Reply (rpc_error 401 (-32001) ''Invalid credentials'')"
    by (simp only: Basic_decoded[where decode=decode and tok=tok', OF assms(9,10)] bad if_True)
  have d: "authMiddleware decode (Some (''Bearer '' @ tok'))
           = Reply (rpc_error 401 (-32001)
               (''Invalid Bearer token format. Expected base64 encoded ''
                @ [CHR 0x27] @ ''username:password'' @ [CHR 0x27]))"
    by (simp only: Bearer_decoded[where decode=decode and tok=tok', OF assms(9,8,10)] bad if_True)
  from a b c d show ?thesis by blast
qed

theorem authMiddleware_extracts_pair_witness:
  "''dTpw'' \<noteq> [] \<and> CHR '' '' \<notin> set ''dTpw''
   \<and> base64_decode ''dTpw'' = Some (''u'' @ CHR '':'' # ''p'')
   \<and> ''u'' \<noteq> [] \<and> ''p'' \<noteq> [] \<and> CHR '':'' \<notin> set ''u'' \<and> CHR '':'' \<notin> set ''p''
   \<and> ''dTo='' \<noteq> [] \<and> CHR '' '' \<notin> set ''dTo=''
   \<and> base64_decode ''dTo='' = Some ''u:''
   \<and> ''u:'' = ''u'' @ CHR '':'' # [] \<and> CHR '':'' \<notin> set ''u''
   \<and> authMiddleware base64_decode (Some (''Basic '' @ ''dTpw'')) = Next (Some ''u'') (Some ''p'')
   \<and> authMiddleware base64_decode (Some (''Bearer '' @ ''dTpw'')) = Next (Some ''u'') (Some ''p'')
   \<and> authMiddleware base64_decode (Some (''Basic '' @ ''dTo=''))
       = Reply (rpc_error 401 (-32001) ''Invalid credentials'')
   \<and> authMiddleware base64_decode (Some (''Bearer '' @ ''dTo=''))
       = Reply (rpc_error 401 (-32001)
           (''Invalid Bearer token format. Expected base64 encoded ''
            @ [CHR 0x27] @ ''username:password'' @ [CHR 0x27]))"
proof -
  have h1: "''dTpw'' \<noteq> []" by simp
  have h2: "CHR '' '' \<notin> set ''dTpw''" by simp
  have h3: "base64_decode ''dTpw'' = Some (''u'' @ CHR '':'' # ''p'')" by code_simp
  have h4: "''u'' \<noteq> []" by simp
  have h5: "''p'' \<noteq> []" by simp
  have h6: "CHR '':'' \<notin> set ''u''" by simp
  have h7: "CHR '':'' \<notin> set ''p''" by simp
  have h8: "''dTo='' \<noteq> []" by simp
  have h9: "CHR '' '' \<notin> set ''dTo=''" by simp
  have h10: "base64_decode ''dTo='' = Some ''u:''" by code_simp
  have e: "''u:'' = ''u'' @ CHR '':'' # [] \<and> CHR '':'' \<notin> set ''u''"
    by simp
  then have "''u:'' = ''u'' @ CHR '':'' # [] \<and> CHR '':'' \<notin> set ''u'' \<and> (''u'' = [] \<or> ([]::string) = [])"
    by simp
  then have h11: "CHR '':'' \<notin> set ''u:''
        \<or> (\<exists>u p. ''u:'' = u @ CHR '':'' # p \<and> CHR '':'' \<notin> set u \<and> (u = [] \<or> p = []))"
    by blast
  note th = authMiddleware_extracts_pair[where decode=base64_decode and tok="''dTpw''" and tok'="''dTo=''",
      OF h1 h2 h3 h4 h5 h6 h7 h8 h9 h10 h11]
  show ?thesis
    using h1 h2 h3 h4 h5 h6 h7 h8 h9 h10 e th by blast
qed

text \<open>
  C5 (as stated): arbitrary non-empty \<open>user\<close> and \<open>pass\<close>. The header below encodes
  \<open>a:b:c\<close>, that is \<open>user = a:b\<close>, \<open>pass = c\<close> (or \<open>user = a\<close>, \<open>pass = b:c\<close>); the
  middleware attaches \<open>(a, b)\<close>.
\<close>

theorem colon_in_credentials_truncated:
  "base64_decode ''YTpiOmM='' = Some (''a:b'' @ '':'' @ ''c'')
   \<and> authMiddleware base64_decode (Some (''Basic '' @ ''YTpiOmM='')) = Next (Some ''a'') (Some ''b'')
   \<and> \<not> authMiddleware base64_decode (Some (''Basic '' @ ''YTpiOmM='')) = Next (Some ''a:b'') (Some ''c'')"
  by code_simp

lemma authMiddleware_passthrough:
  assumes "h = None \<or> (\<exists>s. h = Some s \<and> \<not> startsWith s ''Basic '' \<and> \<not> startsWith s ''Bearer '')"
  shows "authMiddleware decode h = Next None None"
  using assms by (auto simp: authMiddleware_def falsy_simps prop_key_Some)

subsection \<open>Routing\<close>

lemma get_transport_absent_or_sse:
  assumes "map_of s sid = None \<or> (\<exists>e. map_of s sid = Some e \<and> cls (transport e) = SSEServerTransport)"
  shows "(case get_transport s sid of
            Own transportData \<Rightarrow>
              if cls (transport transportData) = StreamableHTTPServerTransport then a transportData else b
          | Inherited \<Rightarrow> b
          | Undefined \<Rightarrow> c) = (if get_transport s sid = Undefined then c else b)"
  using assms by (auto simp: get_transport_def)

text \<open>
  C3 (amended): a \<^verbatim>\<open>/mcp\<close> request that passes the middleware and the credential check and
  carries a non-empty session id for which the store has no entry, or an entry of the SSE
  class, is answered 400 with code -32000, and the store (every entry of it) and the logs
  stay as they are.
\<close>

theorem mcp_unknown_or_old_session_rejected:
  assumes "authMiddleware decode (authorization req) = Next username password"
    and "resolve_credentials ev username password = Some creds"
    and "mcp_session_id req = Some sid" and "sid \<noteq> []"
    and "map_of (transports w) sid = None
         \<or> (\<exists>e. map_of (transports w) sid = Some e \<and> cls (transport e) = SSEServerTransport)"
  shows "route_mcp decode ev now req w =
           (Responded (rpc_error 400 (-32000)
              (if get_transport (transports w) sid = Undefined
               then ''Bad Request: No valid session ID provided''
               else DIFFERENT_PROTOCOL)), w)"
proof -
  obtain u p where c: "creds = (u, p)" by (cases creds)
  show ?thesis
    using assms(1-4)
    by (simp add: route_mcp_def with_auth_def mcp_all_def c falsy_simps prop_key_Some Let_def
        get_transport_absent_or_sse[OF assms(5)])
qed

theorem mcp_unknown_or_old_session_rejected_witness:
  "authMiddleware base64_decode (authorization old_session_post) = Next (Some ''u'') (Some ''p'')
   \<and> resolve_credentials env0 (Some ''u'') (Some ''p'') = Some (Some ''u'', Some ''p'')
   \<and> mcp_session_id old_session_post = Some ''s1'' \<and> ''s1'' \<noteq> []
   \<and> (map_of (transports world2) ''s1'' = None
        \<or> (\<exists>e. map_of (transports world2) ''s1'' = Some e \<and> cls (transport e) = SSEServerTransport))
   \<and> route_mcp base64_decode env0 7 old_session_post world2 =
         (Responded (rpc_error 400 (-32000) DIFFERENT_PROTOCOL), world2)"
proof -
  have h1: "authMiddleware base64_decode (authorization old_session_post)
              = Next (Some ''u'') (Some ''p'')"
    by code_simp
  have h2: "resolve_credentials env0 (Some ''u'') (Some ''p'') = Some (Some ''u'', Some ''p'')"
    by (simp add: resolve_credentials_def falsy_simps)
  have h3: "mcp_session_id old_session_post = Some ''s1''"
    by (simp add: old_session_post_def)
  have h4: "''s1'' \<noteq> []" by simp
  have "map_of (transports world2) ''s1'' = Some \<lparr>transport = sse1, lastActivity = 0\<rparr>
        \<and> cls (transport \<lparr>transport = sse1, lastActivity = 0\<rparr>) = SSEServerTransport"
    by (simp add: world2_def sse1_def)
  then have h5: "map_of (transports world2) ''s1'' = None
        \<or> (\<exists>e. map_of (transports world2) ''s1'' = Some e \<and> cls (transport e) = SSEServerTransport)"
    by blast
  have g: "get_transport (transports world2) ''s1'' \<noteq> Undefined"
    by (simp add: get_transport_def world2_def)
  have c: "route_mcp base64_decode env0 7 old_session_post world2 =
         (Responded (rpc_error 400 (-32000) DIFFERENT_PROTOCOL), world2)"
    using mcp_unknown_or_old_session_rejected[where decode=base64_decode, OF h1 h2 h3 h4 h5, of 7] g
    by simp
  from h1 h2 h3 h4 h5 c show ?thesis by blast
qed

text \<open>
  C3 (as stated): every request with a session id that the store does not know is answered
  400. Without an Authorization header and without environment credentials the credential
  check comes first and answers 401.
\<close>

theorem mcp_unknown_session_unauthenticated:
  "map_of (transports world2) ''s9'' = None
   \<and> route_mcp base64_decode env0 7 anonymous_post world2 =
         (Responded (rpc_error 401 (-32001) AUTH_REQUIRED), world2)
   \<and> status (rpc_error 401 (-32001) AUTH_REQUIRED) \<noteq> 400"
  by code_simp

lemma authMiddleware_Reply_status:
  assumes "authMiddleware decode h = Reply r"
  shows "status r = 401 \<and> code r = Some (-32001)"
  using assms
  by (auto simp: authMiddleware_def rpc_error_def Let_def split: if_splits option.splits)

lemma authMiddleware_Reply_rpc:
  assumes "authMiddleware decode h = Reply r"
  shows "r = rpc_error 401 (-32001) (message r)"
  using authMiddleware_Reply_status[OF assms] by (simp add: rpc_error_def)

lemma mcp_all_GET:
  assumes "req_method req = ''GET''"
  shows "mcp_all ev now req username password w =
     (case resolve_credentials ev username password of
        None \<Rightarrow> (Responded (rpc_error 401 (-32001) AUTH_REQUIRED), w)
      | Some creds \<Rightarrow>
          (case mcp_session_id req of
             None \<Rightarrow>
               (Responded (rpc_error 400 (-32000) ''Bad Request: No valid session ID provided''), w)
           | Some sid \<Rightarrow>
               if sid = []
               then (Responded (rpc_error 400 (-32000)
                       ''Bad Request: No valid session ID provided''), w)
               else (case map_of (transports w) sid of
                       Some e \<Rightarrow>
                         if cls (transport e) = StreamableHTTPServerTransport
                         then (Resume (transport e),
                               w\<lparr>transports := AList.update sid (e\<lparr>lastActivity := now\<rparr>)
                                    (transports w)\<rparr>)
                         else (Responded (rpc_error 400 (-32000) DIFFERENT_PROTOCOL), w)
                     | None \<Rightarrow>
                         (Responded (rpc_error 400 (-32000)
                            (if sid \<in> set Object_prototype_keys then DIFFERENT_PROTOCOL
                             else ''Bad Request: No valid session ID provided'')), w))))"
  using assms
  by (auto simp: mcp_all_def Let_def falsy_simps prop_key_Some get_transport_def
      split: option.splits)

text \<open>
  C8 (amended): the stateless variant answers every GET on \<^verbatim>\<open>/mcp\<close> with 405 and code
  -32000. In the session-tracking variant a GET on \<^verbatim>\<open>/mcp\<close> is answered 401 with code
  -32001 when the middleware rejects the header or no credentials resolve; otherwise, when
  the request carries a non-empty session id under which the store holds a Streamable
  transport, the request is handed to that stored transport and the entry's
  \<open>lastActivity\<close> becomes \<open>now\<close>; otherwise it is answered 400 with code -32000 and the
  state is unchanged. It is never answered 405 there and never starts a session (and an
  exception of the decoder in the Basic branch leaves the middleware).
\<close>

theorem get_mcp_by_variant:
  assumes "req_method req = ''GET''"
  shows "mcp_get req = Responded (rpc_error 405 (-32000) ''Method not allowed.'')
       \<and> route_mcp decode ev now req w =
           (case authMiddleware decode (authorization req) of
              Threw \<Rightarrow> (Uncaught, w)
            | Reply r \<Rightarrow> (Responded (rpc_error 401 (-32001) (message r)), w)
            | Next username password \<Rightarrow>
                (case resolve_credentials ev username password of
                   None \<Rightarrow> (Responded (rpc_error 401 (-32001) AUTH_REQUIRED), w)
                 | Some creds \<Rightarrow>
                     (case mcp_session_id req of
                        None \<Rightarrow>
                          (Responded (rpc_error 400 (-32000)
                             ''Bad Request: No valid session ID provided''), w)
                      | Some sid \<Rightarrow>
                          if sid = []
                          then (Responded (rpc_error 400 (-32000)
                                  ''Bad Request: No valid session ID provided''), w)
                          else (case map_of (transports w) sid of
                                  Some e \<Rightarrow>
                                    if cls (transport e) = StreamableHTTPServerTransport
                                    then (Resume (transport e),
                                          w\<lparr>transports := AList.update sid
                                               (e\<lparr>lastActivity := now\<rparr>) (transports w)\<rparr>)
                                    else (Responded (rpc_error 400 (-32000) DIFFERENT_PROTOCOL), w)
                                | None \<Rightarrow>
                                    (Responded (rpc_error 400 (-32000)
                                       (if sid \<in> set Object_prototype_keys
                                        then DIFFERENT_PROTOCOL
                                        else ''Bad Request: No valid session ID provided'')),
                                     w)))))"
proof (cases "authMiddleware decode (authorization req)")
  case (Next username password)
  then show ?thesis
    by (simp add: mcp_get_def route_mcp_def with_auth_def mcp_all_GET[OF assms])
next
  case (Reply r)
  then show ?thesis
    using authMiddleware_Reply_rpc[OF Reply]
    by (simp add: mcp_get_def route_mcp_def with_auth_def)
next
  case Threw
  then show ?thesis
    by (simp add: mcp_get_def route_mcp_def with_auth_def)
qed

theorem get_mcp_by_variant_witness:
  "req_method live_get = ''GET''
   \<and> mcp_get live_get = Responded (rpc_error 405 (-32000) ''Method not allowed.'')
   \<and> route_mcp base64_decode env1 7 live_get world2 =
       (Resume http2,
        world2\<lparr>transports := [(''s1'', \<lparr>transport = sse1, lastActivity = 0\<rparr>),
                               (''s2'', \<lparr>transport = http2, lastActivity = 7\<rparr>)]\<rparr>)"
proof -
  have h: "req_method live_get = ''GET''"
    by (simp add: live_get_def)
  note th = get_mcp_by_variant[OF h, of base64_decode env1 7 world2]
  have a: "mcp_get live_get = Responded (rpc_error 405 (-32000) ''Method not allowed.'')"
    using th by (rule conjunct1)
  have mw: "authMiddleware base64_decode (authorization live_get) = Next None None"
    by (simp add: live_get_def authMiddleware_def falsy_simps)
  have rc: "resolve_credentials env1 None None = Some (Some ''login'', Some ''secret'')"
    by (simp add: resolve_credentials_def env1_def falsy_simps)
  have sid: "mcp_session_id live_get = Some ''s2''"
    by (simp add: live_get_def)
  have e: "map_of (transports world2) ''s2'' = Some \<lparr>transport = http2, lastActivity = 50000\<rparr>"
    by (simp add: world2_def)
  have c: "cls http2 = StreamableHTTPServerTransport"
    by (simp add: http2_def)
  have u: "AList.update ''s2'' \<lparr>transport = http2, lastActivity = 7\<rparr> (transports world2)
           = [(''s1'', \<lparr>transport = sse1, lastActivity = 0\<rparr>),
              (''s2'', \<lparr>transport = http2, lastActivity = 7\<rparr>)]"
    by (simp add: world2_def)
  have b: "route_mcp base64_decode env1 7 live_get world2 =
       (Resume http2,
        world2\<lparr>transports := [(''s1'', \<lparr>transport = sse1, lastActivity = 0\<rparr>),
                               (''s2'', \<lparr>transport = http2, lastActivity = 7\<rparr>)]\<rparr>)"
    using th[THEN conjunct2] by (simp add: mw rc sid e c u)
  from h a b show ?thesis by blast
qed

text \<open>
  C8 (as stated): every GET on \<^verbatim>\<open>/mcp\<close> is answered 405. In the session-tracking variant a
  GET without a session id is answered 400 and a GET for the live Streamable session \<open>s2\<close>
  is handed to its transport.
\<close>

theorem get_mcp_not_always_405:
  "req_method bare_get = ''GET''
   \<and> fst (route_mcp base64_decode env1 7 bare_get world2)
       = Responded (rpc_error 400 (-32000) ''Bad Request: No valid session ID provided'')
   \<and> status (rpc_error 400 (-32000) ''Bad Request: No valid session ID provided'') \<noteq> 405
   \<and> req_method live_get = ''GET''
   \<and> fst (route_mcp base64_decode env1 7 live_get world2) = Resume http2"
  by code_simp

text \<open>
  C9 (amended): without an Authorization header (or with a scheme other than Basic and
  Bearer) and with an environment credential missing, \<^verbatim>\<open>/mcp\<close> of the session-tracking
  variant (any method), POST \<^verbatim>\<open>/mcp\<close> of the stateless variant, GET \<^verbatim>\<open>/sse\<close> and POST
  \<^verbatim>\<open>/messages\<close> answer 401 with code -32001; GET \<^verbatim>\<open>/tools\<close>, POST
  \<^verbatim>\<open>/validate-credentials\<close> and POST \<^verbatim>\<open>/tool\<close> (for a body with a \<^verbatim>\<open>tool\<close> parameter)
  answer 401 with a body that has no error code. GET and DELETE on \<^verbatim>\<open>/mcp\<close> of the
  stateless variant have no middleware and answer 405 with code -32000.
\<close>

theorem unauthenticated_rejections:
  assumes "authorization req = None
           \<or> (\<exists>s. authorization req = Some s \<and> \<not> startsWith s ''Basic '' \<and> \<not> startsWith s ''Bearer '')"
    and "falsy (DATAFORSEO_USERNAME ev) \<or> falsy (DATAFORSEO_PASSWORD ev)"
  shows "route_mcp decode ev now req w = (Responded (rpc_error 401 (-32001) AUTH_REQUIRED), w)
       \<and> route_sse decode ev now newId (req\<lparr>req_method := ''GET''\<rparr>) w
           = (Responded (rpc_error 401 (-32001) AUTH_REQUIRED), w)
       \<and> route_messages decode ev now (req\<lparr>req_method := ''POST''\<rparr>) w
           = (Responded (rpc_error 401 (-32001) AUTH_REQUIRED), w)
       \<and> route_mcp_post decode ev (req\<lparr>req_method := ''POST''\<rparr>)
           = Responded (rpc_error 401 (-32001) AUTH_REQUIRED)
       \<and> code (rpc_error 401 (-32001) AUTH_REQUIRED) = Some (-32001)
       \<and> route_tools decode ev (req\<lparr>req_method := ''GET''\<rparr>)
           = Responded (plain_error 401 REST_AUTH_REQUIRED)
       \<and> route_tool decode ev (req\<lparr>req_method := ''POST'', body_tool := True\<rparr>)
           = Responded (plain_error 401 REST_AUTH_REQUIRED)
       \<and> route_validate_credentials decode ev (req\<lparr>req_method := ''POST''\<rparr>)
           = Responded (plain_error 401 ''No credentials provided'')
       \<and> code (plain_error 401 REST_AUTH_REQUIRED) = None
       \<and> code (plain_error 401 ''No credentials provided'') = None
       \<and> mcp_get (req\<lparr>req_method := ''GET''\<rparr>)
           = Responded (rpc_error 405 (-32000) ''Method not allowed.'')
       \<and> mcp_delete (req\<lparr>req_method := ''DELETE''\<rparr>)
           = Responded (rpc_error 405 (-32000) ''Method not allowed.'')"
proof -
  have mw: "authMiddleware decode (authorization req) = Next None None"
    using assms(1) by (rule authMiddleware_passthrough)
  have rc: "resolve_credentials ev None None = None"
    using assms(2) by (simp add: resolve_credentials_def falsy_simps)
  show ?thesis
    by (simp add: route_mcp_def route_sse_def route_messages_def route_mcp_post_def
        route_tools_def route_tool_def route_validate_credentials_def
        with_auth_def with_auth_stateless_def mw rc
        mcp_all_def sse_get_def messages_post_def mcp_post_def tools_get_def tool_post_def
        validate_credentials_def mcp_get_def mcp_delete_def rpc_error_def plain_error_def)
qed

theorem unauthenticated_rejections_witness:
  "authorization bare_get = None
   \<and> falsy (DATAFORSEO_USERNAME env0)
   \<and> route_mcp base64_decode env0 7 bare_get world2
       = (Responded (rpc_error 401 (-32001) AUTH_REQUIRED), world2)
   \<and> route_sse base64_decode env0 7 ''s3'' (bare_get\<lparr>req_method := ''GET''\<rparr>) world2
       = (Responded (rpc_error 401 (-32001) AUTH_REQUIRED), world2)
   \<and> route_messages base64_decode env0 7 (bare_get\<lparr>req_method := ''POST''\<rparr>) world2
       = (Responded (rpc_error 401 (-32001) AUTH_REQUIRED), world2)
   \<and> route_mcp_post base64_decode env0 (bare_get\<lparr>req_method := ''POST''\<rparr>)
       = Responded (rpc_error 401 (-32001) AUTH_REQUIRED)
   \<and> route_tools base64_decode env0 (bare_get\<lparr>req_method := ''GET''\<rparr>)
       = Responded (plain_error 401 REST_AUTH_REQUIRED)
   \<and> route_tool base64_decode env0 (bare_get\<lparr>req_method := ''POST'', body_tool := True\<rparr>)
       = Responded (plain_error 401 REST_AUTH_REQUIRED)
   \<and> route_validate_credentials base64_decode env0 (bare_get\<lparr>req_method := ''POST''\<rparr>)
       = Responded (plain_error 401 ''No credentials provided'')"
proof -
  have a: "authorization bare_get = None"
    by (simp add: bare_get_def)
  then have h1: "authorization bare_get = None
    \<or> (\<exists>s. authorization bare_get = Some s \<and> \<not> startsWith s ''Basic '' \<and> \<not> startsWith s ''Bearer '')"
    by (rule disjI1)
  have f: "falsy (DATAFORSEO_USERNAME env0)"
    by (simp add: env0_def falsy_simps)
  then have h2: "falsy (DATAFORSEO_USERNAME env0) \<or> falsy (DATAFORSEO_PASSWORD env0)"
    by (rule disjI1)
  from a f unauthenticated_rejections[OF h1 h2, of base64_decode 7 world2 "''s3''"]
  show ?thesis by blast
qed

text \<open>
  C9 (as stated): every protected endpoint answers with error code -32001. \<^verbatim>\<open>/tools\<close>
  does not.
\<close>

theorem tools_rejection_has_no_code:
  "authorization bare_get = None
   \<and> DATAFORSEO_USERNAME env0 = None \<and> DATAFORSEO_PASSWORD env0 = None
   \<and> route_tools base64_decode env0 bare_get = Responded (plain_error 401 REST_AUTH_REQUIRED)
   \<and> code (plain_error 401 REST_AUTH_REQUIRED) \<noteq> Some (-32001)"
  by code_simp

lemma distinct_mcp_all:
  "distinct (map fst (transports w)) \<Longrightarrow>
   distinct (map fst (transports (snd (mcp_all ev now req username password w))))"
  by (auto simp: mcp_all_def Let_def distinct_update split: option.splits lookup.splits)

lemma distinct_sse_get:
  "distinct (map fst (transports w)) \<Longrightarrow>
   distinct (map fst (transports (snd (sse_get ev now newId username password w))))"
  by (auto simp: sse_get_def Let_def distinct_update split: option.splits)

lemma distinct_messages_post:
  "distinct (map fst (transports w)) \<Longrightarrow>
   distinct (map fst (transports (snd (messages_post ev now req username password w))))"
  by (auto simp: messages_post_def Let_def distinct_update split: option.splits lookup.splits)

lemma mcp_all_resume:
  assumes "resolve_credentials ev username password = Some creds"
    and "mcp_session_id req = Some sid" and "sid \<noteq> []"
    and "map_of (transports w) sid = Some e"
    and "cls (transport e) = StreamableHTTPServerTransport"
  shows "mcp_all ev now req username password w =
           (Resume (transport e),
            w\<lparr>transports := AList.update sid (e\<lparr>lastActivity := now\<rparr>) (transports w)\<rparr>)"
proof -
  obtain u p where c: "creds = (u, p)" by (cases creds)
  show ?thesis
    using assms
    by (simp add: mcp_all_def c falsy_simps prop_key_Some Let_def get_transport_def)
qed

text \<open>
  C10: two requests for the same live Streamable session that differ only in the
  Authorization header, both passing the middleware and the credential check, have the same
  outcome and leave the same store: the stored transport takes the request, its
  \<open>lastActivity\<close> becomes \<open>now\<close>, and no server is built (the outcome is \<open>Resume\<close>, which
  carries no credentials).
\<close>

theorem resume_ignores_credentials:
  assumes "mcp_session_id req = Some sid" and "sid \<noteq> []"
    and "map_of (transports w) sid = Some e"
    and "cls (transport e) = StreamableHTTPServerTransport"
    and "authMiddleware decode h1 = Next u1 p1"
    and "resolve_credentials ev u1 p1 = Some c1"
    and "authMiddleware decode h2 = Next u2 p2"
    and "resolve_credentials ev u2 p2 = Some c2"
  shows "route_mcp decode ev now (req\<lparr>authorization := h1\<rparr>) w
           = route_mcp decode ev now (req\<lparr>authorization := h2\<rparr>) w
       \<and> route_mcp decode ev now (req\<lparr>authorization := h1\<rparr>) w
           = (Resume (transport e),
              w\<lparr>transports := AList.update sid (e\<lparr>lastActivity := now\<rparr>) (transports w)\<rparr>)"
proof -
  have s1: "mcp_session_id (req\<lparr>authorization := h1\<rparr>) = Some sid"
    and s2: "mcp_session_id (req\<lparr>authorization := h2\<rparr>) = Some sid"
    using assms(1) by simp_all
  have r1: "route_mcp decode ev now (req\<lparr>authorization := h1\<rparr>) w
           = (Resume (transport e),
              w\<lparr>transports := AList.update sid (e\<lparr>lastActivity := now\<rparr>) (transports w)\<rparr>)"
    using mcp_all_resume[OF assms(6) s1 assms(2,3,4)]
    by (simp add: route_mcp_def with_auth_def assms(5))
  have r2: "route_mcp decode ev now (req\<lparr>authorization := h2\<rparr>) w
           = (Resume (transport e),
              w\<lparr>transports := AList.update sid (e\<lparr>lastActivity := now\<rparr>) (transports w)\<rparr>)"
    using mcp_all_resume[OF assms(8) s2 assms(2,3,4)]
    by (simp add: route_mcp_def with_auth_def assms(7))
  from r1 r2 show ?thesis by simp
qed

theorem resume_ignores_credentials_witness:
  "mcp_session_id follow_up_post = Some ''s2'' \<and> ''s2'' \<noteq> []
   \<and> map_of (transports world2) ''s2'' = Some \<lparr>transport = http2, lastActivity = 50000\<rparr>
   \<and> cls (transport \<lparr>transport = http2, lastActivity = 50000\<rparr>) = StreamableHTTPServerTransport
   \<and> authMiddleware base64_decode (Some ''Basic dTpw'') = Next (Some ''u'') (Some ''p'')
   \<and> resolve_credentials env0 (Some ''u'') (Some ''p'') = Some (Some ''u'', Some ''p'')
   \<and> authMiddleware base64_decode (Some ''Bearer YTpi'') = Next (Some ''a'') (Some ''b'')
   \<and> resolve_credentials env0 (Some ''a'') (Some ''b'') = Some (Some ''a'', Some ''b'')
   \<and> route_mcp base64_decode env0 60000 (follow_up_post\<lparr>authorization := Some ''Basic dTpw''\<rparr>) world2
       = route_mcp base64_decode env0 60000 (follow_up_post\<lparr>authorization := Some ''Bearer YTpi''\<rparr>) world2
   \<and> route_mcp base64_decode env0 60000 (follow_up_post\<lparr>authorization := Some ''Basic dTpw''\<rparr>) world2
       = (Resume http2,
          world2\<lparr>transports := [(''s1'', \<lparr>transport = sse1, lastActivity = 0\<rparr>),
                                 (''s2'', \<lparr>transport = http2, lastActivity = 60000\<rparr>)]\<rparr>)"
proof -
  have h1: "mcp_session_id follow_up_post = Some ''s2''"
    by (simp add: follow_up_post_def)
  have h2: "''s2'' \<noteq> []" by simp
  have h3: "map_of (transports world2) ''s2'' = Some \<lparr>transport = http2, lastActivity = 50000\<rparr>"
    by (simp add: world2_def)
  have h4: "cls (transport \<lparr>transport = http2, lastActivity = 50000\<rparr>) = StreamableHTTPServerTransport"
    by (simp add: http2_def)
  have h5: "authMiddleware base64_decode (Some ''Basic dTpw'') = Next (Some ''u'') (Some ''p'')"
    by code_simp
  have h6: "resolve_credentials env0 (Some ''u'') (Some ''p'') = Some (Some ''u'', Some ''p'')"
    by (simp add: resolve_credentials_def falsy_simps)
  have h7: "authMiddleware base64_decode (Some ''Bearer YTpi'') = Next (Some ''a'') (Some ''b'')"
    by code_simp
  have h8: "resolve_credentials env0 (Some ''a'') (Some ''b'') = Some (Some ''a'', Some ''b'')"
    by (simp add: resolve_credentials_def falsy_simps)
  note th = resume_ignores_credentials[where decode=base64_decode, OF h1 h2 h3 h4 h5 h6 h7 h8, of 60000]
  have u: "AList.update ''s2'' (\<lparr>transport = http2, lastActivity = 50000\<rparr>\<lparr>lastActivity := 60000\<rparr>)
             (transports world2)
           = [(''s1'', \<lparr>transport = sse1, lastActivity = 0\<rparr>),
              (''s2'', \<lparr>transport = http2, lastActivity = 60000\<rparr>)]"
    by (simp add: world2_def)
  have c1: "route_mcp base64_decode env0 60000 (follow_up_post\<lparr>authorization := Some ''Basic dTpw''\<rparr>) world2
       = route_mcp base64_decode env0 60000 (follow_up_post\<lparr>authorization := Some ''Bearer YTpi''\<rparr>) world2"
    using th by (rule conjunct1)
  have c2: "route_mcp base64_decode env0 60000 (follow_up_post\<lparr>authorization := Some ''Basic dTpw''\<rparr>) world2
       = (Resume http2,
          world2\<lparr>transports := [(''s1'', \<lparr>transport = sse1, lastActivity = 0\<rparr>),
                                 (''s2'', \<lparr>transport = http2, lastActivity = 60000\<rparr>)]\<rparr>)"
    using th[THEN conjunct2] unfolding u by simp
  from h1 h2 h3 h4 h5 h6 h7 h8 c1 c2 show ?thesis by blast
qed

end
